theory Spec2Isabelle
  imports Complex_Main "HOL-Library.Word"
begin

section \<open>Errors\<close>

text \<open>
  The exceptions that the learner's own statements can raise: a missing attribute, a list
  index out of range, a missing dictionary key, an exhausted iterator, a \<open>None\<close> where an
  integer is needed, an integer that does not fit the tensor's type, a division by zero,
  and a tensor operation applied to operands of the wrong shape.
\<close>

datatype error =
    AttributeError string
  | IndexError
  | KeyError string
  | TypeError
  | OverflowError
  | ZeroDivisionError
  | StopIteration
  | ShapeError

section \<open>Gradient reduction (\<open>average_gradients_across_replicas\<close>)\<close>







subsection \<open>Correctness of the reduction\<close>





section \<open>Default networks (\<open>make_default_MAD3PGNetworks\<close>)\<close>

text \<open>
  Python objects have identity: a module built once and put into a list several times is
  one object, and so one set of parameters. The heap is the list of the modules created so
  far; a reference to a created module is its position in it. \<open>tf2_utils.batch_concat\<close>
  is a function of the library, a single object that exists before the call.
\<close>

record action_spec =
  shape :: "int list"

datatype obj_ref = Allocated nat | tf2_utils_batch_concat

datatype module =
    LayerNormMLP "int list" bool
  | NearZeroInitializedLinear "64 word"
  | TanhToSpec action_spec
  | CriticMultiplexer
  | DiscreteValuedHead real real int
  | Sequential "obj_ref list"

type_synonym heap = "module list"

definition new :: "module \<Rightarrow> heap \<Rightarrow> obj_ref \<times> heap" where
  "new m h = (Allocated (length h), h @ [m])"

text \<open>
  \<open>np.prod(action_spec.shape, dtype=int)\<close> multiplies in 64-bit integers, which wrap.
\<close>

definition np_prod :: "int list \<Rightarrow> 64 word" where
  "np_prod xs = prod_list (map word_of_int xs)"

text \<open>
  The class \<open>MAD3PGNetworks\<close> is imported from \<open>Agents.MAD4PG.agent\<close>; its constructor is
  the parameter \<open>MAD3PGNetworks\<close>, applied to the three keyword arguments
  \<open>policy_networks\<close>, \<open>critic_networks\<close> and \<open>observation_networks\<close> in this order. The
  default \<open>action_spec=None\<close> has no attribute \<open>shape\<close>.
\<close>

definition make_default_MAD3PGNetworks ::
  "(obj_ref list \<Rightarrow> obj_ref list \<Rightarrow> obj_ref list \<Rightarrow> 'n) \<Rightarrow>
   action_spec option \<Rightarrow> int list \<Rightarrow> int list \<Rightarrow> real \<Rightarrow> real \<Rightarrow> int \<Rightarrow> int \<Rightarrow>
   heap \<Rightarrow> error + ('n \<times> heap)" where
  "make_default_MAD3PGNetworks MAD3PGNetworks action_spec policy_layer_sizes
       critic_layer_sizes vmin vmax num_atoms edge_number h0 =
     (case action_spec of
        None \<Rightarrow> Inl (AttributeError ''shape'')
      | Some spec \<Rightarrow>
          let num_dimensions = np_prod (shape spec);
              observation_network = tf2_utils_batch_concat;
              (p1, h1) = new (LayerNormMLP policy_layer_sizes True) h0;
              (p2, h2) = new (NearZeroInitializedLinear num_dimensions) h1;
              (p3, h3) = new (TanhToSpec spec) h2;
              (policy_network, h4) = new (Sequential [p1, p2, p3]) h3;
              (c1, h5) = new CriticMultiplexer h4;
              (c2, h6) = new (LayerNormMLP critic_layer_sizes True) h5;
              (c3, h7) = new (DiscreteValuedHead vmin vmax num_atoms) h6;
              (critic_network, h8) = new (Sequential [c1, c2, c3]) h7
          in Inr (MAD3PGNetworks
                    (map (\<lambda>_. policy_network) [0..<nat edge_number])
                    (map (\<lambda>_. critic_network) [0..<nat edge_number])
                    (map (\<lambda>_. observation_network) [0..<nat edge_number]),
                  h8))"

lemma map_const_upt: "map (\<lambda>_. x) [0..<n] = replicate n x"
  by (induction n) (simp_all add: replicate_append_same)

text \<open>
  C10. For every \<open>edge_number\<close>, the three lists given to \<open>MAD3PGNetworks\<close> hold
  \<open>edge_number\<close> times the same object each: the one policy network and the one critic
  network that the call creates (the fourth and the eighth module it allocates), and the
  one observation function. All agents share one policy, one critic and one observation
  network.
\<close>

theorem make_default_MAD3PGNetworks_shared:
  "\<exists>h'. make_default_MAD3PGNetworks MAD3PGNetworks (Some spec) policy_layer_sizes
           critic_layer_sizes vmin vmax num_atoms edge_number h =
         Inr (MAD3PGNetworks
                (replicate (nat edge_number) (Allocated (length h + 3)))
                (replicate (nat edge_number) (Allocated (length h + 7)))
                (replicate (nat edge_number) tf2_utils_batch_concat),
              h')
       \<and> length h' = length h + 8
       \<and> h' ! (length h + 3) =
           Sequential [Allocated (length h), Allocated (length h + 1), Allocated (length h + 2)]
       \<and> h' ! (length h + 7) =
           Sequential [Allocated (length h + 4), Allocated (length h + 5), Allocated (length h + 6)]"
  by (simp add: make_default_MAD3PGNetworks_def new_def map_const_upt nth_append
        eval_nat_numeral)


section \<open>The learner's data\<close>

text \<open>
  A \<open>tf.Variable\<close> is an address; the memory maps every address to the variable's current
  value, flattened. \<open>assign\<close> overwrites the value at an address (its check that the two
  shapes agree is not modelled). Two modules that hold the same address share that
  parameter.
\<close>

type_synonym addr = nat
type_synonym memory = "addr \<Rightarrow> real list"
type_synonym matrix = "real list list"

text \<open>
  A network is a module of the library: its variables, those of them that are trained,
  and the function it computes from the current values of its variables. A critic takes an
  encoded observation and a joint action.
\<close>

record network =
  variables :: "addr list"
  trainable_variables :: "addr list"
  forward :: "memory \<Rightarrow> matrix \<Rightarrow> matrix"

record critic_network =
  critic_variables :: "addr list"
  critic_trainable_variables :: "addr list"
  critic_forward :: "memory \<Rightarrow> matrix \<Rightarrow> matrix \<Rightarrow> matrix"

record optimizer =
  apply_gradients :: "(real list option \<times> addr) list \<Rightarrow> memory \<Rightarrow> memory"

text \<open>
  The attributes of a \<open>MAD3PGLearner\<close>. \<open>edge_number\<close> and \<open>edge_action_size\<close> are
  \<open>Optional[int]\<close>. An attribute that was never assigned is absent, and reading it raises;
  \<open>edge_policy_networks\<close> is \<open>None\<close> for an object on which the attribute does not exist.
\<close>

record learner =
  policy_networks :: "network list"
  critic_networks :: "critic_network list"
  target_policy_networks :: "network list"
  target_critic_networks :: "critic_network list"
  observation_networks :: "network list"
  target_observation_networks :: "network list"
  discount :: real
  clipping :: bool
  target_update_period :: int
  policy_optimizers :: "optimizer list"
  critic_optimizers :: "optimizer list"
  edge_number :: "int option"
  edge_action_size :: "int option"
  edge_policy_networks :: "network list option"

text \<open>
  A batch of transitions: \<open>observation\<close> and \<open>next_observation\<close> are \<open>[B, N, Do]\<close>,
  \<open>action\<close> is \<open>[B, N * Da]\<close>, \<open>reward\<close> is \<open>[B, N]\<close> and \<open>discount\<close> (here
  \<open>discount_t\<close>, the learner has a \<open>discount\<close> of its own) is \<open>[B]\<close>.
\<close>

record transition =
  observation :: "matrix list"
  action :: matrix
  reward :: matrix
  discount_t :: "real list"
  next_observation :: "matrix list"


section \<open>Target network synchronisation\<close>

definition online_variables :: "learner \<Rightarrow> addr list list" where
  "online_variables L =
     map (\<lambda>(observation_network, critic_network, policy_network).
            variables observation_network @ critic_variables critic_network @
            variables policy_network)
       (zip (observation_networks L) (zip (critic_networks L) (policy_networks L)))"

definition target_variables :: "learner \<Rightarrow> addr list list" where
  "target_variables L =
     map (\<lambda>(observation_network, critic_network, policy_network).
            variables observation_network @ critic_variables critic_network @
            variables policy_network)
       (zip (target_observation_networks L)
          (zip (target_critic_networks L) (target_policy_networks L)))"






subsection \<open>What a hard copy needs\<close>

text \<open>
  The pairs (online variable, target variable) in the order in which the two loops assign
  them.
\<close>

definition variable_pairs :: "learner \<Rightarrow> (addr \<times> addr) list" where
  "variable_pairs L =
     concat (map (\<lambda>(online, target). zip online target)
               (zip (online_variables L) (target_variables L)))"












section \<open>Tensors, the gradient tape and the library\<close>

text \<open>
  Exceptions propagate: the first statement that raises ends the computation.
\<close>

fun bind :: "error + 'a \<Rightarrow> ('a \<Rightarrow> error + 'b) \<Rightarrow> error + 'b" where
  "bind (Inl e) f = Inl e"
| "bind (Inr x) f = f x"

text \<open>\<open>xs[i]\<close> on a Python list, for the indices \<open>i \<ge> 0\<close> that the loops produce.\<close>

definition index :: "'a list \<Rightarrow> nat \<Rightarrow> error + 'a" where
  "index xs i = (if i < length xs then Inr (xs ! i) else Inl IndexError)"

text \<open>
  A value computed inside \<open>with tf.GradientTape(persistent=True) as tape\<close> carries the
  set of trained variables from which the tape has recorded a differentiable path to it.
  \<open>tape.gradient(loss, variables)\<close> is \<open>None\<close> at exactly the variables outside this set
  (``Nones occur when you call tape.gradient(loss, variables) with some variables that
  don't affect the loss''). A value read from the batch depends on no variable;
  \<open>tf.stop_gradient\<close> cuts every path; applying a network adds its trained variables.
\<close>

record 'a taped =
  val :: 'a
  deps :: "addr set"



definition call :: "network \<Rightarrow> memory \<Rightarrow> matrix taped \<Rightarrow> matrix taped" where
  "call net m x =
     \<lparr>val = forward net m (val x), deps = deps x \<union> set (trainable_variables net)\<rparr>"


text \<open>
  The functions of TensorFlow and Acme that \<open>_step\<close> calls and whose code is not part of
  the repository: the two losses, the mean of a value distribution, the value of a
  gradient, the cross-replica reductions and the clipping by global norm.
\<close>

record lib =
  categorical :: "matrix taped \<Rightarrow> real list \<Rightarrow> real list \<Rightarrow> matrix taped \<Rightarrow> real list taped"
  dpg :: "real list taped \<Rightarrow> matrix taped \<Rightarrow> real option \<Rightarrow> bool \<Rightarrow> real list taped"
  mean :: "matrix taped \<Rightarrow> real list taped"
  gradient_value :: "real list taped \<Rightarrow> addr \<Rightarrow> real list"
  all_reduce :: "real list list \<Rightarrow> real list list"
  clip_by_global_norm :: "real list option list \<Rightarrow> real \<Rightarrow> real list option list"
  reduce_mean_over_replicas :: "real list \<Rightarrow> real list"


subsection \<open>Tensor operations\<close>

text \<open>
  A \<open>[B, d]\<close> tensor is the list of its \<open>B\<close> rows, a \<open>[B, N, d]\<close> tensor the list of its
  \<open>B\<close> matrices. \<open>t[:, i, :]\<close> and \<open>t[:, i]\<close> need index \<open>i\<close> to exist.
\<close>

definition slice_agent :: "matrix list \<Rightarrow> nat \<Rightarrow> error + matrix" where
  "slice_agent t i =
     (if list_all (\<lambda>b. i < length b) t then Inr (map (\<lambda>b. b ! i) t) else Inl ShapeError)"


text \<open>\<open>tf.concat(ts, axis=1)\<close>: the tensors must have the same number of rows.\<close>

definition tf_concat :: "matrix taped list \<Rightarrow> error + matrix taped" where
  "tf_concat ts =
     (case ts of
        [] \<Rightarrow> Inl ShapeError
      | t # _ \<Rightarrow>
          if list_all (\<lambda>u. length (val u) = length (val t)) ts
          then Inr \<lparr>val = map (\<lambda>b. concat (map (\<lambda>u. val u ! b) ts)) [0..<length (val t)],
                    deps = \<Union> (set (map deps ts))\<rparr>
          else Inl ShapeError)"


definition cube :: "nat \<Rightarrow> nat \<Rightarrow> nat \<Rightarrow> real list \<Rightarrow> matrix list" where
  "cube b n d flat =
     map (\<lambda>i. map (\<lambda>j. take d (drop ((i * n + j) * d) flat)) [0..<n]) [0..<b]"

definition tf_reshape3 :: "nat \<Rightarrow> nat \<Rightarrow> int option \<Rightarrow> matrix \<Rightarrow> error + matrix list" where
  "tf_reshape3 b n action_size t =
     (case action_size of
        None \<Rightarrow> Inl TypeError
      | Some d \<Rightarrow>
          let flat = concat t
          in if d = - 1
             then (if 0 < b * n \<and> b * n dvd length flat
                   then Inr (cube b n (length flat div (b * n)) flat)
                   else Inl ShapeError)
             else if 0 \<le> d \<and> length flat = b * n * nat d
             then Inr (cube b n (nat d) flat)
             else Inl ShapeError)"




section \<open>The loss computation of \<open>_step\<close>\<close>








text \<open>
  \<open>tf.reshape(edge_a_t, shape=[batch_size, self._edge_number,
  self._edge_action_size])[:, i, :]\<close>
\<close>

definition edge_slice ::
  "learner \<Rightarrow> nat \<Rightarrow> nat \<Rightarrow> matrix taped \<Rightarrow> nat \<Rightarrow> error + matrix taped" where
  "edge_slice L batch_size n joint i =
     bind (tf_reshape3 batch_size n (edge_action_size L) (val joint)) (\<lambda>r.
     bind (slice_agent r i) (\<lambda>s. Inr \<lparr>val = s, deps = deps joint\<rparr>))"

text \<open>
  The loop \<open>for i in range(self._edge_number)\<close> of the actor part, which appends one
  slice per agent \<open>i \<noteq> 0\<close> to \<open>dpg_a_t\<close>.
\<close>

fun dpg_a_t_loop ::
  "learner \<Rightarrow> memory \<Rightarrow> nat \<Rightarrow> nat \<Rightarrow> matrix taped \<Rightarrow> matrix taped \<Rightarrow> nat \<Rightarrow> nat list \<Rightarrow>
   matrix taped \<Rightarrow> error + matrix taped" where
  "dpg_a_t_loop L m batch_size n joint o_t edge_index [] dpg_a_t = Inr dpg_a_t"
| "dpg_a_t_loop L m batch_size n joint o_t edge_index (i # rest) dpg_a_t =
     (if i \<noteq> 0 \<and> i \<noteq> edge_index
      then bind (edge_slice L batch_size n joint i) (\<lambda>s.
           bind (tf_concat [dpg_a_t, s])
             (dpg_a_t_loop L m batch_size n joint o_t edge_index rest))
      else if i \<noteq> 0 \<and> i = edge_index
      then (case edge_policy_networks L of
              None \<Rightarrow> Inl (AttributeError ''_edge_policy_networks'')
            | Some nets \<Rightarrow>
                bind (index nets edge_index) (\<lambda>net.
                bind (tf_concat [dpg_a_t, call net m o_t])
                  (dpg_a_t_loop L m batch_size n joint o_t edge_index rest)))
      else dpg_a_t_loop L m batch_size n joint o_t edge_index rest dpg_a_t)"

text \<open>The counterfactual joint action \<open>dpg_a_t\<close> of agent \<open>edge_index\<close>.\<close>

definition dpg_a_t ::
  "learner \<Rightarrow> memory \<Rightarrow> nat \<Rightarrow> nat \<Rightarrow> matrix taped \<Rightarrow> matrix taped \<Rightarrow> nat \<Rightarrow>
   error + matrix taped" where
  "dpg_a_t L m batch_size n joint o_t edge_index =
     bind (if edge_index = 0
           then bind (index (policy_networks L) edge_index) (\<lambda>net. Inr (call net m o_t))
           else edge_slice L batch_size n joint 0)
       (dpg_a_t_loop L m batch_size n joint o_t edge_index [0..<n])"






section \<open>Gradients, their application and the step\<close>










text \<open>
  \<open>__init__\<close> stores its arguments; an optimizer that is not given is Adam. It assigns no
  attribute \<open>_edge_policy_networks\<close>, and the step counter starts at 0.
\<close>

definition init ::
  "network list \<Rightarrow> critic_network list \<Rightarrow> network list \<Rightarrow> critic_network list \<Rightarrow>
   real \<Rightarrow> int \<Rightarrow> network list \<Rightarrow> network list \<Rightarrow>
   optimizer option list \<Rightarrow> optimizer option list \<Rightarrow> bool \<Rightarrow> int option \<Rightarrow> int option \<Rightarrow>
   optimizer \<Rightarrow> learner" where
  "init policy_nets critic_nets target_policy_nets target_critic_nets discount_arg
       period observation_nets target_observation_nets policy_opts critic_opts
       clipping_arg edge_number_arg edge_action_size_arg adam =
     \<lparr>policy_networks = policy_nets,
      critic_networks = critic_nets,
      target_policy_networks = target_policy_nets,
      target_critic_networks = target_critic_nets,
      observation_networks = observation_nets,
      target_observation_networks = target_observation_nets,
      discount = discount_arg,
      clipping = clipping_arg,
      target_update_period = period,
      policy_optimizers = map (\<lambda>opt. case opt of Some x \<Rightarrow> x | None \<Rightarrow> adam) policy_opts,
      critic_optimizers = map (\<lambda>opt. case opt of Some x \<Rightarrow> x | None \<Rightarrow> adam) critic_opts,
      edge_number = edge_number_arg,
      edge_action_size = edge_action_size_arg,
      edge_policy_networks = None\<rparr>"



section \<open>What the loss computation produces\<close>





subsection \<open>Examples\<close>

text \<open>
  Networks to run the definitions on: a policy that multiplies its input by its one
  parameter, the stateless observation network of \<open>make_default_MAD3PGNetworks\<close>, a
  critic that returns the joint action it is given, plain gradient descent, and simple
  stand-ins for the functions of the library. The online parameters are 10, the target
  parameters 1. One learner has one agent and a batch of two samples, the other has two
  agents and a batch of one sample; both are built by \<open>init\<close>.
\<close>

definition scale_net :: "addr \<Rightarrow> network" where
  "scale_net a =
     \<lparr>variables = [a], trainable_variables = [a],
      forward = (\<lambda>m x. map (map (\<lambda>v. hd (m a) * v)) x)\<rparr>"

definition batch_concat_net :: network where
  "batch_concat_net = \<lparr>variables = [], trainable_variables = [], forward = (\<lambda>m x. x)\<rparr>"

definition action_critic :: "addr \<Rightarrow> critic_network" where
  "action_critic a =
     \<lparr>critic_variables = [a], critic_trainable_variables = [a],
      critic_forward = (\<lambda>m x act. act)\<rparr>"

definition sgd :: optimizer where
  "sgd = \<lparr>apply_gradients =
            (\<lambda>gvs m. fold (\<lambda>(g, v) m. case g of None \<Rightarrow> m
                                          | Some d \<Rightarrow> m(v := map2 (\<lambda>p q. p - q) (m v) d)) gvs m)\<rparr>"

definition example_lib :: lib where
  "example_lib =
     \<lparr>categorical = (\<lambda>q_tm1 r d q_t. \<lparr>val = r, deps = deps q_tm1\<rparr>),
      dpg = (\<lambda>q a dqda_clipping clip_norm. \<lparr>val = val q, deps = deps a\<rparr>),
      mean = (\<lambda>z. \<lparr>val = map sum_list (val z), deps = deps z\<rparr>),
      gradient_value = (\<lambda>loss v. [1]),
      all_reduce = (\<lambda>gs. gs),
      clip_by_global_norm = (\<lambda>gs c. gs),
      reduce_mean_over_replicas = (\<lambda>x. x)\<rparr>"

definition example_memory :: memory where
  "example_memory = (\<lambda>a. if a < 30 then [10] else [1])"

definition one_agent :: learner where
  "one_agent =
     init [scale_net 20] [action_critic 10] [scale_net 40] [action_critic 30] (99 / 100) 2
       [batch_concat_net] [batch_concat_net] [None] [None] True (Some 1) (Some 1) sgd"

definition one_agent_batch :: transition where
  "one_agent_batch =
     \<lparr>observation = [[[1]], [[2]]], action = [[7], [8]], reward = [[1], [3]],
      discount_t = [1, 1], next_observation = [[[5]], [[6]]]\<rparr>"

definition two_agents :: learner where
  "two_agents =
     init [scale_net 20, scale_net 21] [action_critic 10, action_critic 11]
       [scale_net 40, scale_net 41] [action_critic 30, action_critic 31] (99 / 100) 2
       [batch_concat_net, batch_concat_net] [batch_concat_net, batch_concat_net]
       [None, None] [None, None] True (Some 2) (Some 1) sgd"

definition two_agents_batch :: transition where
  "two_agents_batch =
     \<lparr>observation = [[[1], [2]]], action = [[7, 8]], reward = [[1, 3]],
      discount_t = [1], next_observation = [[[5], [6]]]\<rparr>"

text \<open>A batch of two samples that hold no agent at all.\<close>

definition misshaped_batch :: transition where
  "misshaped_batch = one_agent_batch\<lparr>observation := [[], []]\<rparr>"

lemmas example_defs = scale_net_def batch_concat_net_def action_critic_def sgd_def
  example_lib_def example_memory_def one_agent_def one_agent_batch_def two_agents_def
  two_agents_batch_def init_def misshaped_batch_def

section \<open>Lemmas about the loss computation\<close>

subsection \<open>Dictionary keys\<close>





subsection \<open>The joint target action\<close>






subsection \<open>Slices of the joint target action\<close>







subsection \<open>The counterfactual action of agent 0\<close>




subsection \<open>The missing attribute\<close>









subsection \<open>Errors and results of a step\<close>













subsection \<open>The examples, evaluated\<close>








lemma one_agent_pairs: "variable_pairs one_agent = [(10, 30), (20, 40)]"
  by (simp add: variable_pairs_def online_variables_def target_variables_def example_defs)






section \<open>Target synchronisation: when and what\<close>



section \<open>The joint target action\<close>


section \<open>The counterfactual joint action\<close>




section \<open>The attribute that is never assigned\<close>



section \<open>The losses that a step reports\<close>




section \<open>A step that fails on the shape of its batch\<close>




end
